theory Spec2Isabelle
  imports Main "HOL-Library.AList"
begin

section \<open>Python values, exceptions and callables\<close>

text \<open>
  The toolkit of \<^verbatim>\<open>src/addon/polymcp_toolkit.py\<close> works on arbitrary Python callables
  and on the values they take and return. The fragment of Python values modelled here:
  \<open>None\<close>, booleans, unbounded integers, strings (a character is a code point below 256),
  lists, tuples, dictionaries with string keys (an association list in insertion order),
  opaque objects and references. An opaque object \<open>PObj t r s\<close> is any object that
  \<open>json.dumps\<close> rejects for its type (a set, bytes, a class instance, ...): \<open>t\<close> is the
  name of its type, \<open>r\<close> what \<open>repr\<close> does for it and \<open>s\<close> what \<open>str\<close> does, each a string
  or an exception raised. Floats are not modelled.

  An object that the program may mutate lives in a store and is named by a reference
  \<open>PRef a\<close>, its address: whoever holds the reference sees the object as the store has it
  now. A list or dictionary that nothing mutates (the body of a request, a result built
  by an operation) is written as its value. The objects of the store hold values; a
  reference that the store does not resolve (a dangling one, or one inside a stored
  object: the operations below create neither) is handled as an opaque object.
\<close>

text \<open>
  A raised exception, as the handlers observe it: \<open>type(e).__name__\<close>, the names of the
  proper base classes of its type (for \<open>isinstance\<close>, hence for \<open>except\<close> clauses), and
  \<open>str(e)\<close>.
\<close>

record py_exc =
  exc_type :: string
  exc_bases :: "string list"
  exc_str :: string

definition isinstance :: "py_exc \<Rightarrow> string \<Rightarrow> bool" where
  "isinstance e c = (exc_type e = c \<or> c \<in> set (exc_bases e))"

definition TypeError :: "string \<Rightarrow> py_exc" where
  "TypeError msg =
     \<lparr>exc_type = ''TypeError'', exc_bases = [''Exception'', ''BaseException''], exc_str = msg\<rparr>"

definition ValueError :: "string \<Rightarrow> py_exc" where
  "ValueError msg =
     \<lparr>exc_type = ''ValueError'', exc_bases = [''Exception'', ''BaseException''], exc_str = msg\<rparr>"

text \<open>The outcome of running code that may raise.\<close>

datatype 'a outcome = Return 'a | Raise py_exc

datatype pyval =
    PNone
  | PBool bool
  | PInt int
  | PStr string
  | PList "pyval list"
  | PTuple "pyval list"
  | PDict "(string \<times> pyval) list"
  | PObj string "string outcome" "string outcome"
  | PRef nat

type_synonym pydict = "(string \<times> pyval) list"

text \<open>The store: the current value of each mutable object, by address.\<close>

type_synonym heap = "(nat \<times> pyval) list"

fun resolve :: "heap \<Rightarrow> pyval \<Rightarrow> pyval" where
  "resolve h (PRef a) = (case map_of h a of Some v \<Rightarrow> v | None \<Rightarrow> PRef a)"
| "resolve h (PList xs) = PList (map (resolve h) xs)"
| "resolve h (PTuple xs) = PTuple (map (resolve h) xs)"
| "resolve h (PDict kvs) = PDict (map (\<lambda>kv. (fst kv, resolve h (snd kv))) kvs)"
| "resolve h v = v"

subsection \<open>The builtin \<open>str\<close> and \<open>repr\<close>\<close>

definition digit_char :: "nat \<Rightarrow> char" where
  "digit_char d = char_of (of_char (CHR ''0'') + d)"

function str_nat :: "nat \<Rightarrow> string" where
  "str_nat n = (if n < 10 then [digit_char n] else str_nat (n div 10) @ [digit_char (n mod 10)])"
  by pat_completeness auto
termination
  by (relation "measure (\<lambda>n. n)") auto

declare str_nat.simps [simp del]

text \<open>
  Converting an integer to its decimal string raises \<open>ValueError\<close> when the string would
  have more digits than \<open>sys.int_info.default_max_str_digits\<close> (CPython 3.11 and later).
\<close>

definition int_max_str_digits :: nat where
  "int_max_str_digits = 4300"

definition digits_exceed_limit :: "int \<Rightarrow> bool" where
  "digits_exceed_limit i = (int_max_str_digits < length (str_nat (nat \<bar>i\<bar>)))"

definition int_limit_error :: py_exc where
  "int_limit_error =
     ValueError (''Exceeds the limit (4300 digits) for integer string conversion; ''
                   @ ''use sys.set_int_max_str_digits() to increase the limit'')"

definition str_int :: "int \<Rightarrow> string outcome" where
  "str_int i =
     (if digits_exceed_limit i then Raise int_limit_error
      else Return (if i < 0 then CHR ''-'' # str_nat (nat (- i)) else str_nat (nat i)))"

definition hex_char :: "nat \<Rightarrow> char" where
  "hex_char d = (if d < 10 then digit_char d else char_of (of_char (CHR ''a'') + (d - 10)))"

definition squote :: char where
  "squote = CHR 0x27"

definition dquote :: char where
  "dquote = CHR 0x22"

definition newline :: char where
  "newline = CHR 0x0A"

text \<open>
  \<open>repr\<close> of a string: single quotes unless the string holds a single quote and no
  double quote; the quote and the backslash are escaped, tab, newline and carriage return
  are written \<open>\t\<close>, \<open>\n\<close>, \<open>\r\<close>, and the other non-printable code points below 256
  as \<open>\xhh\<close>.
\<close>

definition printable :: "char \<Rightarrow> bool" where
  "printable c = (let n = (of_char c :: nat) in
     (32 \<le> n \<and> n < 127) \<or> (161 \<le> n \<and> n \<noteq> 173))"

definition escape_char :: "char \<Rightarrow> char \<Rightarrow> string" where
  "escape_char q c =
     (if c = q \<or> c = CHR 0x5C then [CHR 0x5C, c]
      else if c = CHR 0x09 then [CHR 0x5C, CHR ''t'']
      else if c = CHR 0x0A then [CHR 0x5C, CHR ''n'']
      else if c = CHR 0x0D then [CHR 0x5C, CHR ''r'']
      else if printable c then [c]
      else [CHR 0x5C, CHR ''x'', hex_char (of_char c div 16), hex_char (of_char c mod 16)])"

definition repr_str :: "string \<Rightarrow> string" where
  "repr_str s =
     (let q = (if squote \<in> set s \<and> dquote \<notin> set s then dquote else squote)
      in q # concat (map (escape_char q) s) @ [q])"

fun join :: "string \<Rightarrow> string list \<Rightarrow> string" where
  "join sep [] = []"
| "join sep [x] = x"
| "join sep (x # y # ys) = x @ sep @ join sep (y # ys)"

text \<open>The strings of a sequence of conversions, or the first exception among them.\<close>

fun collect :: "string outcome list \<Rightarrow> string list outcome" where
  "collect [] = Return []"
| "collect (Raise e # rs) = Raise e"
| "collect (Return s # rs) =
     (case collect rs of Raise e \<Rightarrow> Raise e | Return ss \<Rightarrow> Return (s # ss))"

definition then_string :: "'a outcome \<Rightarrow> ('a \<Rightarrow> string) \<Rightarrow> string outcome" where
  "then_string r f = (case r of Raise e \<Rightarrow> Raise e | Return x \<Rightarrow> Return (f x))"

text \<open>\<open>repr\<close> and \<open>str\<close> of a value in which the references have been resolved.\<close>

fun py_repr :: "pyval \<Rightarrow> string outcome" where
  "py_repr PNone = Return ''None''"
| "py_repr (PBool b) = Return (if b then ''True'' else ''False'')"
| "py_repr (PInt i) = str_int i"
| "py_repr (PStr s) = Return (repr_str s)"
| "py_repr (PList xs) =
     then_string (collect (map py_repr xs)) (\<lambda>ss. ''['' @ join '', '' ss @ '']'')"
| "py_repr (PTuple xs) =
     then_string (collect (map py_repr xs))
       (\<lambda>ss. case ss of [s] \<Rightarrow> ''('' @ s @ '',)'' | _ \<Rightarrow> ''('' @ join '', '' ss @ '')'')"
| "py_repr (PDict kvs) =
     then_string
       (collect (map (\<lambda>kv. then_string (py_repr (snd kv))
                               (\<lambda>s. repr_str (fst kv) @ '': '' @ s)) kvs))
       (\<lambda>ss. ''{'' @ join '', '' ss @ ''}'')"
| "py_repr (PObj t r s) = r"
| "py_repr (PRef a) = Return ''<object>''"

definition py_str :: "pyval \<Rightarrow> string outcome" where
  "py_str v = (case v of PStr s \<Rightarrow> Return s | PObj t r s \<Rightarrow> s | _ \<Rightarrow> py_repr v)"

subsection \<open>\<open>json.dumps\<close>, \<open>str.split\<close> and \<open>str.strip\<close>\<close>

text \<open>
  \<open>json.dumps(v)\<close> of a value in which the references have been resolved, as far as the
  toolkit uses it: only whether it raises. It raises at the first item it cannot write:
  \<open>TypeError\<close> for an object it cannot serialise, \<open>ValueError\<close> for an integer over the
  digit limit. (Circular references and running out of stack or memory are outside the
  model.)
\<close>

fun first_raise :: "unit outcome list \<Rightarrow> unit outcome" where
  "first_raise [] = Return ()"
| "first_raise (Return u # rs) = first_raise rs"
| "first_raise (Raise e # rs) = Raise e"

fun json_dumps :: "pyval \<Rightarrow> unit outcome" where
  "json_dumps (PList xs) = first_raise (map json_dumps xs)"
| "json_dumps (PTuple xs) = first_raise (map json_dumps xs)"
| "json_dumps (PDict kvs) = first_raise (map (\<lambda>kv. json_dumps (snd kv)) kvs)"
| "json_dumps (PObj t r s) =
     Raise (TypeError (''Object of type '' @ t @ '' is not JSON serializable''))"
| "json_dumps (PRef a) =
     Raise (TypeError ''Object of type object is not JSON serializable'')"
| "json_dumps (PInt i) = (if digits_exceed_limit i then Raise int_limit_error else Return ())"
| "json_dumps v = Return ()"

definition IndexError :: "string \<Rightarrow> py_exc" where
  "IndexError msg =
     \<lparr>exc_type = ''IndexError'',
      exc_bases = [''LookupError'', ''Exception'', ''BaseException''], exc_str = msg\<rparr>"

text \<open>
  \<open>s.split(sep)\<close>: the pieces of \<open>s\<close> between the occurrences of \<open>sep\<close>, found from the
  left without overlap; \<open>acc\<close> is the piece being read. An empty separator raises.
\<close>

function split_from :: "string \<Rightarrow> string \<Rightarrow> string \<Rightarrow> string list" where
  "split_from sep acc [] = [acc]"
| "split_from sep acc (c # cs) =
     (if sep \<noteq> [] \<and> take (length sep) (c # cs) = sep
      then acc # split_from sep [] (drop (length sep) (c # cs))
      else split_from sep (acc @ [c]) cs)"
  by pat_completeness auto
termination
  by (relation "measure (\<lambda>(sep, acc, s). length s)") auto

definition py_split :: "string \<Rightarrow> string \<Rightarrow> string list outcome" where
  "py_split s sep =
     (if sep = [] then Raise (ValueError ''empty separator'') else Return (split_from sep [] s))"

text \<open>\<open>c.isspace()\<close> for a code point below 256, and \<open>s.strip()\<close>.\<close>

definition isspace :: "char \<Rightarrow> bool" where
  "isspace c = (let n = (of_char c :: nat) in
     (9 \<le> n \<and> n \<le> 13) \<or> (28 \<le> n \<and> n \<le> 32) \<or> n = 133 \<or> n = 160)"

definition py_strip :: "string \<Rightarrow> string" where
  "py_strip s = rev (dropWhile isspace (rev (dropWhile isspace s)))"

subsection \<open>Callables\<close>

text \<open>
  What \<open>inspect.signature\<close> reports of a parameter: its name, its kind, its annotation
  (\<open>None\<close> for \<open>Parameter.empty\<close>) and its default (\<open>None\<close> for \<open>Parameter.empty\<close>). Of an
  annotation the introspector reads the attribute \<open>__name__\<close>, when there is one, and
  \<open>str\<close> of it, which is a string or an exception raised.
\<close>

datatype param_kind =
  POSITIONAL_ONLY | POSITIONAL_OR_KEYWORD | VAR_POSITIONAL | KEYWORD_ONLY | VAR_KEYWORD

record annotation =
  ann_name :: "string option"
  ann_str :: "string outcome"

record param =
  pname :: string
  pkind :: param_kind
  pannotation :: "annotation option"
  pdefault :: "pyval option"

text \<open>
  A callable, as the toolkit observes it: \<open>__name__\<close>, the result of \<open>inspect.getdoc\<close>
  (the cleaned documentation text, or \<open>None\<close>), the parameters of \<open>inspect.signature\<close> in
  declaration order, and its body. The body runs on the bound arguments, may read and
  change the state \<open>'w\<close> of the host application, and returns a value or raises. (A
  callable of which \<open>inspect.signature\<close> raises has no parameters to describe; it is not
  among these.)
\<close>

record 'w func =
  fname :: string
  getdoc :: "string option"
  signature :: "param list"
  body :: "pydict \<Rightarrow> 'w \<Rightarrow> pyval outcome \<times> 'w"

subsection \<open>Calling with keyword arguments: \<open>func(**params)\<close>\<close>

definition accepts_keyword :: "param \<Rightarrow> bool" where
  "accepts_keyword p = (pkind p = POSITIONAL_OR_KEYWORD \<or> pkind p = KEYWORD_ONLY)"

definition keyword_names :: "param list \<Rightarrow> string list" where
  "keyword_names ps = map pname (filter accepts_keyword ps)"

definition positional_only_names :: "param list \<Rightarrow> string list" where
  "positional_only_names ps = map pname (filter (\<lambda>p. pkind p = POSITIONAL_ONLY) ps)"

definition has_var_keyword :: "param list \<Rightarrow> bool" where
  "has_var_keyword ps = list_ex (\<lambda>p. pkind p = VAR_KEYWORD) ps"

text \<open>The value a parameter is bound to, \<open>None\<close> when it is required and not given.\<close>

definition bind_param :: "param list \<Rightarrow> pydict \<Rightarrow> param \<Rightarrow> pyval option" where
  "bind_param ps kwargs p =
     (case pkind p of
        VAR_POSITIONAL \<Rightarrow> Some (PTuple [])
      | VAR_KEYWORD \<Rightarrow> Some (PDict (filter (\<lambda>kv. fst kv \<notin> set (keyword_names ps)) kwargs))
      | POSITIONAL_ONLY \<Rightarrow> pdefault p
      | _ \<Rightarrow> (case map_of kwargs (pname p) of Some v \<Rightarrow> Some v | None \<Rightarrow> pdefault p))"

text \<open>The interpreter's wording of the mismatch (CPython 3.10 to 3.12).\<close>

definition quoted :: "string \<Rightarrow> string" where
  "quoted s = squote # s @ [squote]"

fun name_list :: "string list \<Rightarrow> string" where
  "name_list [] = []"
| "name_list [a] = a"
| "name_list [a, b] = a @ '' and '' @ b"
| "name_list xs = join '', '' (butlast (butlast xs)) @ '', '' @ last (butlast xs) @ '', and '' @ last xs"

definition missing_message :: "string \<Rightarrow> string \<Rightarrow> string list \<Rightarrow> string" where
  "missing_message f what names =
     f @ ''() missing '' @ str_nat (length names) @ '' required '' @ what @ '' argument''
       @ (if length names = 1 then [] else ''s'') @ '': '' @ name_list (map repr_str names)"

definition unexpected_message :: "string \<Rightarrow> string \<Rightarrow> string" where
  "unexpected_message f k = f @ ''() got an unexpected keyword argument '' @ quoted k"

definition positional_only_message :: "string \<Rightarrow> string list \<Rightarrow> string" where
  "positional_only_message f names =
     f @ ''() got some positional-only arguments passed as keyword arguments: ''
       @ quoted (join '', '' names)"

text \<open>
  Binding a mapping of keyword arguments onto the parameters. A key that no parameter
  takes by keyword is an error (the message names the first such key, or the
  positional-only parameters passed by keyword) unless a \<open>**kwargs\<close> parameter collects
  it; then every
  positional parameter, then every keyword-only parameter, needs a value or a default.
  Each mismatch is a \<open>TypeError\<close>. On success: the bound value of each parameter, in
  declaration order.
\<close>

definition unexpected_keys :: "param list \<Rightarrow> pydict \<Rightarrow> string list" where
  "unexpected_keys ps kwargs = filter (\<lambda>k. k \<notin> set (keyword_names ps)) (map fst kwargs)"

definition unbound_params :: "param list \<Rightarrow> pydict \<Rightarrow> param list" where
  "unbound_params ps kwargs = filter (\<lambda>p. bind_param ps kwargs p = None) ps"

definition bound_arguments :: "param list \<Rightarrow> pydict \<Rightarrow> pydict" where
  "bound_arguments ps kwargs =
     concat (map (\<lambda>p. case bind_param ps kwargs p of
                          None \<Rightarrow> [] | Some v \<Rightarrow> [(pname p, v)]) ps)"

definition bind_arguments :: "'w func \<Rightarrow> pydict \<Rightarrow> py_exc + pydict" where
  "bind_arguments f kwargs =
     (let ps = signature f;
          unexpected = unexpected_keys ps kwargs;
          posonly = filter (\<lambda>n. n \<in> set (map fst kwargs)) (positional_only_names ps);
          unbound = unbound_params ps kwargs;
          missing_pos = map pname (filter (\<lambda>p. pkind p \<noteq> KEYWORD_ONLY) unbound);
          missing_kw = map pname (filter (\<lambda>p. pkind p = KEYWORD_ONLY) unbound)
      in if unexpected \<noteq> [] \<and> \<not> has_var_keyword ps then
           (if posonly \<noteq> [] then Inl (TypeError (positional_only_message (fname f) posonly))
            else Inl (TypeError (unexpected_message (fname f) (concat (take 1 unexpected)))))
         else if missing_pos \<noteq> [] then
           Inl (TypeError (missing_message (fname f) ''positional'' missing_pos))
         else if missing_kw \<noteq> [] then
           Inl (TypeError (missing_message (fname f) ''keyword-only'' missing_kw))
         else Inr (bound_arguments ps kwargs))"

definition py_call :: "'w func \<Rightarrow> pydict \<Rightarrow> 'w \<Rightarrow> pyval outcome \<times> 'w" where
  "py_call f kwargs w =
     (case bind_arguments f kwargs of
        Inl e \<Rightarrow> (Raise e, w)
      | Inr bound \<Rightarrow> body f bound w)"

section \<open>The toolkit\<close>

subsection \<open>Introspection: \<open>_extract_param_info\<close> and \<open>_extract_docstring\<close>\<close>

text \<open>
  The body of the loop of \<open>_extract_param_info\<close> for one parameter: the dictionary
  \<open>info\<close>, in the store \<open>h\<close> of the moment.

  The annotation: \<open>getattr(annotation, "__name__", str(annotation))\<close> evaluates
  \<open>str(annotation)\<close> first, whether or not there is a \<open>__name__\<close>; when that raises, the
  handler calls \<open>str(annotation)\<close> again, unguarded (or the exception is no \<open>Exception\<close>
  and is not caught): the exception escapes either way. Otherwise the name is
  \<open>__name__\<close> when there is one, and that string when there is none.

  The default is tried with \<open>json.dumps\<close>: when that returns, the default object itself is
  stored; when it raises \<open>TypeError\<close> or \<open>ValueError\<close>, \<open>str(param.default)\<close> is stored,
  and an exception of that \<open>str\<close> is not caught; nor is another exception of
  \<open>json.dumps\<close>.
\<close>

definition type_info :: "param \<Rightarrow> pydict \<Rightarrow> pydict outcome" where
  "type_info p info =
     (case pannotation p of
        None \<Rightarrow> Return info
      | Some a \<Rightarrow>
          (case ann_str a of
             Raise e \<Rightarrow> Raise e
           | Return s \<Rightarrow>
               Return (AList.update ''type''
                         (PStr (case ann_name a of Some n \<Rightarrow> n | None \<Rightarrow> s)) info)))"

definition default_info :: "heap \<Rightarrow> param \<Rightarrow> pydict \<Rightarrow> pydict outcome" where
  "default_info h p info =
     (case pdefault p of
        None \<Rightarrow> Return info
      | Some d \<Rightarrow>
          (case json_dumps (resolve h d) of
             Return u \<Rightarrow> Return (AList.update ''default'' d info)
           | Raise e \<Rightarrow>
               if isinstance e ''TypeError'' \<or> isinstance e ''ValueError''
               then (case py_str (resolve h d) of
                       Raise e' \<Rightarrow> Raise e'
                     | Return s \<Rightarrow> Return (AList.update ''default'' (PStr s) info))
               else Raise e))"

definition param_info :: "heap \<Rightarrow> param \<Rightarrow> pydict outcome" where
  "param_info h p =
     (case type_info p [(''required'', PBool (pdefault p = None))] of
        Raise e \<Rightarrow> Raise e
      | Return info \<Rightarrow> default_info h p info)"

fun param_info_loop :: "heap \<Rightarrow> param list \<Rightarrow> pydict \<Rightarrow> pydict outcome" where
  "param_info_loop h [] params = Return params"
| "param_info_loop h (p # ps) params =
     (case param_info h p of
        Raise e \<Rightarrow> Raise e
      | Return info \<Rightarrow> param_info_loop h ps (AList.update (pname p) (PDict info) params))"

definition extract_param_info :: "heap \<Rightarrow> 'w func \<Rightarrow> pydict outcome" where
  "extract_param_info h f = param_info_loop h (signature f) []"

definition extract_docstring :: "'w func \<Rightarrow> string outcome" where
  "extract_docstring f =
     (case getdoc f of
        None \<Rightarrow> Return []
      | Some doc \<Rightarrow>
          if doc = [] then Return []
          else (case py_split doc [newline, newline] of
                  Raise e \<Rightarrow> Raise e
                | Return paragraphs \<Rightarrow>
                    (case paragraphs of
                       [] \<Rightarrow> Raise (IndexError ''list index out of range'')
                     | first # rest \<Rightarrow> Return (py_strip first))))"

subsection \<open>The registry: \<open>expose_tools\<close>\<close>

text \<open>
  The state the endpoints close over: the title and version, the dictionary \<open>tool_map\<close>
  from names to callables and the list \<open>tool_info\<close> of descriptors. A descriptor holds
  the default of a parameter as \<open>_extract_param_info\<close> stored it: for a mutable default, the
  reference to the object, not a copy. \<open>expose_tools\<close> runs in the store \<open>h\<close> of the moment
  it is called.
\<close>

record 'w app =
  app_title :: string
  app_description :: string
  app_version :: string
  tool_map :: "(string \<times> 'w func) list"
  tool_info :: "pyval list"

definition descriptor :: "heap \<Rightarrow> 'w func \<Rightarrow> pyval outcome" where
  "descriptor h f =
     (case extract_docstring f of
        Raise e \<Rightarrow> Raise e
      | Return doc \<Rightarrow>
          (case extract_param_info h f of
             Raise e \<Rightarrow> Raise e
           | Return params \<Rightarrow>
               Return (PDict [(''name'', PStr (fname f)),
                              (''description'', PStr doc),
                              (''parameters'', PDict params)])))"

text \<open>The loop \<open>for func in tools\<close>, on the pair of \<open>tool_map\<close> and \<open>tool_info\<close>.\<close>

fun register_tools ::
  "heap \<Rightarrow> 'w func list \<Rightarrow> (string \<times> 'w func) list \<times> pyval list
     \<Rightarrow> ((string \<times> 'w func) list \<times> pyval list) outcome" where
  "register_tools h [] reg = Return reg"
| "register_tools h (f # fs) (tmap, tinfo) =
     (case descriptor h f of
        Raise e \<Rightarrow> Raise e
      | Return d \<Rightarrow> register_tools h fs (AList.update (fname f) f tmap, tinfo @ [d]))"

definition expose_tools ::
  "heap \<Rightarrow> 'w func list \<Rightarrow> string \<Rightarrow> string \<Rightarrow> string \<Rightarrow> 'w app outcome" where
  "expose_tools h tools title description version =
     (case register_tools h tools ([], []) of
        Raise e \<Rightarrow> Raise e
      | Return (tmap, tinfo) \<Rightarrow>
          Return \<lparr>app_title = title, app_description = description, app_version = version,
                  tool_map = tmap, tool_info = tinfo\<rparr>)"

subsection \<open>The endpoints\<close>

text \<open>
  What a handler does: it returns a value (the framework answers 200 with it), raises
  \<open>HTTPException(status_code, detail)\<close>, or lets another exception escape.
\<close>

datatype response = Returned pyval | HTTPException nat pyval | Propagated py_exc

definition health :: "'w app \<Rightarrow> response" where
  "health a =
     Returned (PDict [(''status'', PStr ''ok''),
                      (''server'', PStr (app_title a)),
                      (''version'', PStr (app_version a)),
                      (''tools'', PInt (int (length (tool_map a))))])"

definition list_tools :: "'w app \<Rightarrow> response" where
  "list_tools a =
     Returned (PDict [(''tools'', PList (tool_info a)),
                      (''count'', PInt (int (length (tool_info a))))])"

definition not_found_detail :: "string \<Rightarrow> string" where
  "not_found_detail tool_name =
     ''Tool '' @ [squote] @ tool_name @ [squote]
       @ '' not found. Use GET /mcp/list_tools to see available tools.''"

text \<open>\<open>body or {}\<close>: an absent body and an empty one both give the empty mapping.\<close>

definition body_or_empty :: "pydict option \<Rightarrow> pydict" where
  "body_or_empty b = (case b of None \<Rightarrow> [] | Some d \<Rightarrow> if d = [] then [] else d)"

definition invoke_tool :: "'w app \<Rightarrow> string \<Rightarrow> pydict option \<Rightarrow> 'w \<Rightarrow> response \<times> 'w" where
  "invoke_tool a tool_name b w =
     (case map_of (tool_map a) tool_name of
        None \<Rightarrow> (HTTPException 404 (PStr (not_found_detail tool_name)), w)
      | Some f \<Rightarrow>
          (let params = body_or_empty b in
           case py_call f params w of
             (Return result, w') \<Rightarrow>
               (Returned (PDict [(''success'', PBool True),
                                 (''tool'', PStr tool_name),
                                 (''result'', result)]), w')
           | (Raise e, w') \<Rightarrow>
               if isinstance e ''TypeError'' then
                 (HTTPException 422
                    (PDict [(''error'', PStr (exc_str e)),
                            (''tool'', PStr tool_name),
                            (''expected_parameters'', PList (map (PStr \<circ> pname) (signature f))),
                            (''received_parameters'', PList (map (PStr \<circ> fst) params))]), w')
               else if isinstance e ''Exception'' then
                 (Returned (PDict [(''success'', PBool False),
                                   (''tool'', PStr tool_name),
                                   (''error'', PStr (exc_str e)),
                                   (''error_type'', PStr (exc_type e))]), w')
               else (Propagated e, w')))"

subsection \<open>The server: one request after another\<close>





subsection \<open>An operation to run: \<open>add(a, b)\<close>\<close>

text \<open>
  \<^verbatim>\<open>def add(a, b): return a + b\<close>, with no documentation, annotations or defaults.
  \<open>+\<close> adds two integers (a boolean counts as 0 or 1), concatenates two strings, two
  lists or two tuples, and raises \<open>TypeError\<close> on the other pairs of values (an opaque
  object is taken to define no addition; the arguments of a request are fresh values,
  not references).
\<close>

definition type_name :: "pyval \<Rightarrow> string" where
  "type_name v =
     (case v of
        PNone \<Rightarrow> ''NoneType'' | PBool b \<Rightarrow> ''bool'' | PInt i \<Rightarrow> ''int'' | PStr s \<Rightarrow> ''str''
      | PList xs \<Rightarrow> ''list'' | PTuple xs \<Rightarrow> ''tuple'' | PDict kvs \<Rightarrow> ''dict''
      | PObj t r s \<Rightarrow> t | PRef a \<Rightarrow> ''object'')"

definition int_of :: "pyval \<Rightarrow> int option" where
  "int_of v = (case v of PInt i \<Rightarrow> Some i | PBool b \<Rightarrow> Some (if b then 1 else 0) | _ \<Rightarrow> None)"

definition py_add :: "pyval \<Rightarrow> pyval \<Rightarrow> pyval outcome" where
  "py_add x y =
     (case (int_of x, int_of y) of
        (Some i, Some j) \<Rightarrow> Return (PInt (i + j))
      | _ \<Rightarrow>
          (case (x, y) of
             (PStr s, PStr t) \<Rightarrow> Return (PStr (s @ t))
           | (PList xs, PList ys) \<Rightarrow> Return (PList (xs @ ys))
           | (PTuple xs, PTuple ys) \<Rightarrow> Return (PTuple (xs @ ys))
           | _ \<Rightarrow>
               Raise (TypeError (''unsupported operand type(s) for +: '' @ quoted (type_name x)
                                   @ '' and '' @ quoted (type_name y)))))"

definition positional :: "string \<Rightarrow> param" where
  "positional n =
     \<lparr>pname = n, pkind = POSITIONAL_OR_KEYWORD, pannotation = None, pdefault = None\<rparr>"

definition UnboundLocalError :: "string \<Rightarrow> py_exc" where
  "UnboundLocalError msg =
     \<lparr>exc_type = ''UnboundLocalError'',
      exc_bases = [''NameError'', ''Exception'', ''BaseException''], exc_str = msg\<rparr>"

definition add :: "'w func" where
  "add =
     \<lparr>fname = ''add'', getdoc = None, signature = [positional ''a'', positional ''b''],
      body = (\<lambda>args w.
        case (map_of args ''a'', map_of args ''b'') of
          (Some x, Some y) \<Rightarrow> (py_add x y, w)
        | _ \<Rightarrow> (Raise (UnboundLocalError ''a local variable is not bound''), w))\<rparr>"

subsection \<open>More operations to run\<close>




text \<open>\<^verbatim>\<open>def make_set(): return {1}\<close>: the result is a set, which \<open>json.dumps\<close> rejects.\<close>

definition the_set :: pyval where
  "the_set = PObj ''set'' (Return ''{1}'') (Return ''{1}'')"


text \<open>
  A second operation whose \<open>__name__\<close> is \<open>add\<close>:
  \<^verbatim>\<open>def add(a, b, c=0): "Add three numbers." ; return a + b + c\<close>.
\<close>

definition add3 :: "'w func" where
  "add3 =
     \<lparr>fname = ''add'', getdoc = Some ''Add three numbers.'',
      signature = [positional ''a'', positional ''b'',
                   \<lparr>pname = ''c'', pkind = POSITIONAL_OR_KEYWORD, pannotation = None,
                    pdefault = Some (PInt 0)\<rparr>],
      body = (\<lambda>args w.
        case (map_of args ''a'', map_of args ''b'', map_of args ''c'') of
          (Some x, Some y, Some z) \<Rightarrow>
            (case py_add x y of Raise e \<Rightarrow> (Raise e, w) | Return s \<Rightarrow> (py_add s z, w))
        | _ \<Rightarrow> (Raise (UnboundLocalError ''a local variable is not bound''), w))\<rparr>"

text \<open>The descriptor that \<open>_extract_param_info\<close> and \<open>_extract_docstring\<close> give for \<open>add(a, b)\<close>.\<close>

definition add_descriptor :: pyval where
  "add_descriptor =
     PDict [(''name'', PStr ''add''),
            (''description'', PStr []),
            (''parameters'', PDict [(''a'', PDict [(''required'', PBool True)]),
                                    (''b'', PDict [(''required'', PBool True)])])]"

definition add3_descriptor :: pyval where
  "add3_descriptor =
     PDict [(''name'', PStr ''add''),
            (''description'', PStr ''Add three numbers.''),
            (''parameters'', PDict [(''a'', PDict [(''required'', PBool True)]),
                                    (''b'', PDict [(''required'', PBool True)]),
                                    (''c'', PDict [(''required'', PBool False),
                                                   (''default'', PInt 0)])])]"

text \<open>
  An operation with documentation, an annotation and defaults, one of them a set:
  \<^verbatim>\<open>def configure(limit: int = None, seen={1}): ...\<close> with the documentation
  \<^verbatim>\<open>Configure the tool.\<close>, a blank line, \<^verbatim>\<open>Details follow.\<close>; it returns \<open>None\<close>.
\<close>

definition limit_param :: param where
  "limit_param =
     \<lparr>pname = ''limit'', pkind = POSITIONAL_OR_KEYWORD,
      pannotation = Some \<lparr>ann_name = Some ''int'', ann_str = Return ''<class 'int'>''\<rparr>,
      pdefault = Some PNone\<rparr>"

definition seen_param :: param where
  "seen_param =
     \<lparr>pname = ''seen'', pkind = POSITIONAL_OR_KEYWORD, pannotation = None,
      pdefault = Some the_set\<rparr>"

definition configure_doc :: string where
  "configure_doc = ''Configure the tool. '' @ [newline, newline] @ ''Details follow.''"

definition configure :: "'w func" where
  "configure =
     \<lparr>fname = ''configure'', getdoc = Some configure_doc,
      signature = [limit_param, seen_param],
      body = (\<lambda>args w. (Return PNone, w))\<rparr>"

definition configure_descriptor :: pyval where
  "configure_descriptor =
     PDict [(''name'', PStr ''configure''),
            (''description'', PStr ''Configure the tool.''),
            (''parameters'',
               PDict [(''limit'', PDict [(''required'', PBool False),
                                         (''type'', PStr ''int''),
                                         (''default'', PNone)]),
                      (''seen'', PDict [(''required'', PBool False),
                                        (''default'', PStr ''{1}'')])])]"





text \<open>
  An operation that mutates its own default:
  \<^verbatim>\<open>def acc(x, seen=[]): seen.append(x); return len(seen)\<close>.
  The list \<open>[]\<close> of the \<open>def\<close> is one object, at address 0 of the store \<open>acc_store\<close> in
  which the function was defined; a list passed in a request is a fresh one.
\<close>

definition AttributeError :: "string \<Rightarrow> py_exc" where
  "AttributeError msg =
     \<lparr>exc_type = ''AttributeError'', exc_bases = [''Exception'', ''BaseException''],
      exc_str = msg\<rparr>"


definition acc :: "(heap \<times> 'h) func" where
  "acc =
     \<lparr>fname = ''acc'', getdoc = None,
      signature = [positional ''x'',
                   \<lparr>pname = ''seen'', pkind = POSITIONAL_OR_KEYWORD, pannotation = None,
                    pdefault = Some (PRef 0)\<rparr>],
      body = (\<lambda>args w.
        case (map_of args ''x'', map_of args ''seen'') of
          (Some x, Some (PRef a)) \<Rightarrow>
            (case resolve (fst w) (PRef a) of
               PList xs \<Rightarrow>
                 (Return (PInt (int (length xs) + 1)),
                  (AList.update a (PList (xs @ [x])) (fst w), snd w))
             | v \<Rightarrow>
                 (Raise (AttributeError (quoted (type_name v)
                                           @ '' object has no attribute '' @ quoted ''append'')), w))
        | (Some x, Some (PList xs)) \<Rightarrow> (Return (PInt (int (length xs) + 1)), w)
        | (Some x, Some v) \<Rightarrow>
            (Raise (AttributeError (quoted (type_name v)
                                      @ '' object has no attribute '' @ quoted ''append'')), w)
        | _ \<Rightarrow> (Raise (UnboundLocalError ''a local variable is not bound''), w))\<rparr>"


text \<open>
  The registry that \<open>expose_tools\<close> builds from one operation, with the default title,
  description and version: for \<open>add(a, b)\<close>, for \<open>divide\<close>, for \<open>make_set\<close> and for
  \<open>configure\<close>.
\<close>

definition server_of :: "'w func \<Rightarrow> pyval \<Rightarrow> 'w app" where
  "server_of f d =
     \<lparr>app_title = ''MCP Server'', app_description = [], app_version = ''1.0.0'',
      tool_map = [(fname f, f)], tool_info = [d]\<rparr>"

definition add_server :: "'w app" where
  "add_server = server_of add add_descriptor"



definition configure_server :: "'w app" where
  "configure_server = server_of configure configure_descriptor"


section \<open>The vocabulary of the specification\<close>



text \<open>
  The invariant of a parameter entry: it has a boolean \<open>required\<close>, and it has a
  \<open>default\<close> exactly when \<open>required\<close> is false. A descriptor is well formed when every entry
  of its \<open>parameters\<close> is.
\<close>


definition param_entry_ok :: "pyval \<Rightarrow> bool" where
  "param_entry_ok v =
     (case v of
        PDict info \<Rightarrow>
          (case map_of info ''required'' of
             Some (PBool r) \<Rightarrow> (r = (map_of info ''default'' = None))
           | _ \<Rightarrow> False)
      | _ \<Rightarrow> False)"

definition descriptor_ok :: "pyval \<Rightarrow> bool" where
  "descriptor_ok d =
     (case d of
        PDict kvs \<Rightarrow>
          (case map_of kvs ''parameters'' of
             Some (PDict params) \<Rightarrow> list_all (\<lambda>kv. param_entry_ok (snd kv)) params
           | _ \<Rightarrow> False)
      | _ \<Rightarrow> False)"

section \<open>Facts about binding and about the operations\<close>

lemma isinstance_TypeError: "isinstance (TypeError msg) ''TypeError''"
  by (simp add: isinstance_def TypeError_def)

lemma bind_arguments_raises_TypeError:
  "bind_arguments f kwargs = Inl e \<Longrightarrow> \<exists>msg. e = TypeError msg"
  by (auto simp: bind_arguments_def Let_def split: if_splits)

text \<open>
  Binding fails exactly on a mismatch: a key that no parameter takes (and no \<open>**kwargs\<close>
  to collect it), or a parameter left without a value.
\<close>

lemma bind_arguments_fails_iff:
  "(\<exists>e. bind_arguments f kwargs = Inl e) \<longleftrightarrow>
     (unexpected_keys (signature f) kwargs \<noteq> [] \<and> \<not> has_var_keyword (signature f))
     \<or> unbound_params (signature f) kwargs \<noteq> []"
proof -
  have "filter (\<lambda>p. pkind p \<noteq> KEYWORD_ONLY) xs = []
          \<and> filter (\<lambda>p. pkind p = KEYWORD_ONLY) xs = [] \<longleftrightarrow> xs = []"
    for xs :: "param list"
    by (induction xs) auto
  then show ?thesis
    by (auto simp: bind_arguments_def Let_def)
qed

lemma missing_message_nonempty: "missing_message f what names \<noteq> []"
  by (simp add: missing_message_def str_nat.simps [of "length names"])

lemma bind_arguments_message:
  "bind_arguments f kwargs = Inl e \<Longrightarrow> exc_str e \<noteq> []"
  by (auto simp: bind_arguments_def Let_def TypeError_def missing_message_nonempty
        unexpected_message_def positional_only_message_def quoted_def split: if_splits)

text \<open>
  A mapping whose keys are exactly the names of the parameters binds, when every
  parameter can be passed by keyword.
\<close>

lemma bind_param_given:
  assumes "accepts_keyword p" and "pname p \<in> set (map fst kwargs)"
  shows "bind_param ps kwargs p \<noteq> None"
proof -
  from assms(2) obtain v where "map_of kwargs (pname p) = Some v"
    by (metis map_of_eq_None_iff not_Some_eq set_map)
  with assms(1) show ?thesis
    by (auto simp: bind_param_def accepts_keyword_def)
qed

lemma bind_arguments_exact:
  assumes "list_all accepts_keyword (signature f)"
      and "set (map fst kwargs) = set (map pname (signature f))"
  shows "bind_arguments f kwargs = Inr (bound_arguments (signature f) kwargs)"
proof -
  from assms(1) have k: "keyword_names (signature f) = map pname (signature f)"
    by (simp add: keyword_names_def list_all_iff)
  with assms(2) have u: "unexpected_keys (signature f) kwargs = []"
    by (auto simp: unexpected_keys_def filter_empty_conv)
  have "unbound_params (signature f) kwargs = []"
    unfolding unbound_params_def filter_empty_conv
  proof
    fix p assume p: "p \<in> set (signature f)"
    with assms(1) have "accepts_keyword p" by (simp add: list_all_iff)
    moreover from p assms(2) have "pname p \<in> set (map fst kwargs)" by auto
    ultimately show "\<not> bind_param (signature f) kwargs p = None"
      by (rule bind_param_given)
  qed
  with u show ?thesis
    by (simp add: bind_arguments_def)
qed

text \<open>The example operations: their descriptors, their registries, their runs.\<close>

lemma descriptor_add: "descriptor [] (add :: 'w func) = Return add_descriptor"
  by code_simp

lemma descriptor_add3: "descriptor [] (add3 :: 'w func) = Return add3_descriptor"
  by code_simp



lemma descriptor_configure: "descriptor [] (configure :: 'w func) = Return configure_descriptor"
  by code_simp

lemma expose_tools_single:
  "descriptor [] f = Return d \<Longrightarrow>
   expose_tools [] [f] ''MCP Server'' [] ''1.0.0'' = Return (server_of f d)"
  by (simp add: expose_tools_def server_of_def)

lemma expose_add:
  "expose_tools [] [add :: 'w func] ''MCP Server'' [] ''1.0.0'' = Return add_server"
  unfolding add_server_def by (rule expose_tools_single [OF descriptor_add])



lemma expose_configure:
  "expose_tools [] [configure :: 'w func] ''MCP Server'' [] ''1.0.0'' = Return configure_server"
  unfolding configure_server_def by (rule expose_tools_single [OF descriptor_configure])

lemma add_registered: "map_of (tool_map (add_server :: 'w app)) ''add'' = Some add"
  by (simp add: add_server_def server_of_def add_def)



lemma bind_add_2_3:
  "bind_arguments (add :: 'w func) [(''a'', PInt 2), (''b'', PInt 3)]
     = Inr [(''a'', PInt 2), (''b'', PInt 3)]"
  by code_simp


lemma bind_add_2:
  "bind_arguments (add :: 'w func) [(''a'', PInt 2)] =
     Inl (TypeError (''add() missing 1 required positional argument: ''
                       @ [CHR 0x27] @ ''b'' @ [CHR 0x27]))"
  by code_simp

lemma bind_add_c:
  "bind_arguments (add :: 'w func) [(''c'', PInt 1)] =
     Inl (TypeError (''add() got an unexpected keyword argument '' @ [CHR 0x27] @ ''c''
                       @ [CHR 0x27]))"
  by code_simp

lemma body_add_2_3:
  "body (add :: 'w func) [(''a'', PInt 2), (''b'', PInt 3)] w = (Return (PInt 5), w)"
  by (simp add: add_def py_add_def int_of_def)







section \<open>The dispatcher\<close>

text \<open>
  Claim C5. For every tool name that is not a key of the registry, and any body,
  \<open>invoke_tool\<close> raises \<open>HTTPException\<close> with status 404 and the detail
  \<^verbatim>\<open>Tool '<name>' not found. Use GET /mcp/list_tools to see available tools.\<close>;
  no other exception escapes, and the host's state is untouched.
\<close>

theorem invoke_tool_not_found:
  assumes "tool_name \<notin> fst ` set (tool_map a)"
  shows "invoke_tool a tool_name b w =
           (HTTPException 404
              (PStr (''Tool '' @ [CHR 0x27] @ tool_name @ [CHR 0x27]
                       @ '' not found. Use GET /mcp/list_tools to see available tools.'')), w)"
proof -
  from assms have "map_of (tool_map a) tool_name = None"
    by (simp add: map_of_eq_None_iff)
  then show ?thesis
    by (simp add: invoke_tool_def not_found_detail_def squote_def)
qed

theorem invoke_tool_not_found_witness:
  "expose_tools [] [add :: unit func] ''MCP Server'' [] ''1.0.0'' = Return add_server
   \<and> ''nonexistent'' \<notin> fst ` set (tool_map (add_server :: unit app))
   \<and> invoke_tool add_server ''nonexistent'' (Some []) () =
       (HTTPException 404
          (PStr (''Tool '' @ [CHR 0x27] @ ''nonexistent'' @ [CHR 0x27]
                   @ '' not found. Use GET /mcp/list_tools to see available tools.'')), ())"
proof -
  have h: "''nonexistent'' \<notin> fst ` set (tool_map (add_server :: unit app))"
    by (simp add: add_server_def server_of_def add_def)
  show ?thesis
    using h invoke_tool_not_found [OF h, of "Some []" "()"] expose_add [where 'w = unit]
    by simp
qed

text \<open>
  Claim C6. For a registered tool and a body whose mapping binds onto the operation's
  parameters, when the operation returns a value, \<open>invoke_tool\<close> returns the envelope
  \<open>{success: true, tool: <name>, result: <the value>}\<close>; an absent body is handled as the
  empty mapping. (For \<open>add(a, b)\<close> and \<open>{a: 2, b: 3}\<close> the result is 5: the witness.)
\<close>

theorem invoke_tool_success:
  assumes "map_of (tool_map a) tool_name = Some f"
      and "bind_arguments f (body_or_empty b) = Inr bound"
      and "body f bound w = (Return result, w')"
  shows "invoke_tool a tool_name b w =
           (Returned (PDict [(''success'', PBool True),
                             (''tool'', PStr tool_name),
                             (''result'', result)]), w')
         \<and> invoke_tool a tool_name None w = invoke_tool a tool_name (Some []) w"
  using assms by (simp add: invoke_tool_def py_call_def body_or_empty_def)

theorem invoke_tool_success_witness:
  "expose_tools [] [add :: unit func] ''MCP Server'' [] ''1.0.0'' = Return add_server
   \<and> invoke_tool (add_server :: unit app) ''add''
        (Some [(''a'', PInt 2), (''b'', PInt 3)]) () =
        (Returned (PDict [(''success'', PBool True),
                          (''tool'', PStr ''add''),
                          (''result'', PInt 5)]), ())"
proof -
  have b: "bind_arguments (add :: unit func)
             (body_or_empty (Some [(''a'', PInt 2), (''b'', PInt 3)]))
             = Inr [(''a'', PInt 2), (''b'', PInt 3)]"
    by (simp add: body_or_empty_def bind_add_2_3)
  show ?thesis
    using invoke_tool_success [OF add_registered b body_add_2_3] expose_add [where 'w = unit]
    by simp
qed

text \<open>
  Claim C4. For a registered tool and a body whose mapping mismatches the operation's
  parameters (a key that no parameter takes by keyword, with no \<open>**kwargs\<close> to collect
  it, or a parameter left without a value), \<open>invoke_tool\<close> raises \<open>HTTPException\<close> with
  status 422, whose detail holds the non-empty message of the binding failure, the tool
  name, the names of all declared parameters in order as \<open>expected_parameters\<close> and the
  keys received as \<open>received_parameters\<close>. (For \<open>add(a, b)\<close> and \<open>{a: 2}\<close> these are
  \<open>[a, b]\<close> and \<open>[a]\<close>: the witness.)
\<close>

theorem invoke_tool_parameter_error:
  assumes "map_of (tool_map a) tool_name = Some f"
      and "(unexpected_keys (signature f) (body_or_empty b) \<noteq> []
              \<and> \<not> has_var_keyword (signature f))
           \<or> unbound_params (signature f) (body_or_empty b) \<noteq> []"
  shows "\<exists>e. bind_arguments f (body_or_empty b) = Inl e \<and> exc_str e \<noteq> [] \<and>
           invoke_tool a tool_name b w =
             (HTTPException 422
                (PDict [(''error'', PStr (exc_str e)),
                        (''tool'', PStr tool_name),
                        (''expected_parameters'', PList (map (PStr \<circ> pname) (signature f))),
                        (''received_parameters'',
                           PList (map (PStr \<circ> fst) (body_or_empty b)))]), w)"
proof -
  from assms(2) obtain e where e: "bind_arguments f (body_or_empty b) = Inl e"
    using bind_arguments_fails_iff [of f "body_or_empty b"] by blast
  then obtain msg where "e = TypeError msg"
    using bind_arguments_raises_TypeError by blast
  then have "isinstance e ''TypeError''"
    by (simp add: isinstance_TypeError)
  with e assms(1) have "invoke_tool a tool_name b w =
             (HTTPException 422
                (PDict [(''error'', PStr (exc_str e)),
                        (''tool'', PStr tool_name),
                        (''expected_parameters'', PList (map (PStr \<circ> pname) (signature f))),
                        (''received_parameters'',
                           PList (map (PStr \<circ> fst) (body_or_empty b)))]), w)"
    by (simp add: invoke_tool_def py_call_def)
  with e bind_arguments_message [OF e] show ?thesis by blast
qed

theorem invoke_tool_parameter_error_witness:
  "expose_tools [] [add :: unit func] ''MCP Server'' [] ''1.0.0'' = Return add_server
   \<and> unbound_params (signature (add :: unit func)) [(''a'', PInt 2)] \<noteq> []
   \<and> invoke_tool (add_server :: unit app) ''add'' (Some [(''a'', PInt 2)]) () =
       (HTTPException 422
          (PDict [(''error'', PStr (''add() missing 1 required positional argument: ''
                                     @ [CHR 0x27] @ ''b'' @ [CHR 0x27])),
                  (''tool'', PStr ''add''),
                  (''expected_parameters'', PList [PStr ''a'', PStr ''b'']),
                  (''received_parameters'', PList [PStr ''a''])]), ())"
proof -
  have args: "body_or_empty (Some [(''a'', PInt 2)]) = [(''a'', PInt 2)]"
    by (simp add: body_or_empty_def)
  have miss: "unbound_params (signature (add :: unit func)) [(''a'', PInt 2)] \<noteq> []"
    by code_simp
  have sig: "map (PStr \<circ> pname) (signature (add :: unit func)) = [PStr ''a'', PStr ''b'']"
    by (simp add: add_def positional_def)
  from invoke_tool_parameter_error [OF add_registered, of "Some [(''a'', PInt 2)]" "()"] miss
  obtain e where e: "bind_arguments (add :: unit func) [(''a'', PInt 2)] = Inl e"
    and r: "invoke_tool (add_server :: unit app) ''add'' (Some [(''a'', PInt 2)]) () =
             (HTTPException 422
                (PDict [(''error'', PStr (exc_str e)),
                        (''tool'', PStr ''add''),
                        (''expected_parameters'',
                           PList (map (PStr \<circ> pname) (signature (add :: unit func)))),
                        (''received_parameters'',
                           PList (map (PStr \<circ> fst) [(''a'', PInt 2)]))]), ())"
    by (auto simp: args)
  from e have "e = TypeError (''add() missing 1 required positional argument: ''
                               @ [CHR 0x27] @ ''b'' @ [CHR 0x27])"
    by (simp add: bind_add_2)
  with r sig miss expose_add [where 'w = unit] show ?thesis
    by (simp add: TypeError_def)
qed




text \<open>
  The two other kinds of failure of a running operation: a \<open>TypeError\<close> gets the 422
  answer of a mismatch, and a failure that is neither a \<open>TypeError\<close> nor an \<open>Exception\<close>
  escapes the handler.
\<close>

lemma invoke_tool_operation_TypeError:
  assumes "map_of (tool_map a) tool_name = Some f"
      and "bind_arguments f (body_or_empty b) = Inr bound"
      and "body f bound w = (Raise e, w')"
      and "isinstance e ''TypeError''"
  shows "invoke_tool a tool_name b w =
           (HTTPException 422
              (PDict [(''error'', PStr (exc_str e)),
                      (''tool'', PStr tool_name),
                      (''expected_parameters'', PList (map (PStr \<circ> pname) (signature f))),
                      (''received_parameters'',
                         PList (map (PStr \<circ> fst) (body_or_empty b)))]), w')"
  using assms by (simp add: invoke_tool_def py_call_def)

lemma invoke_tool_operation_escapes:
  assumes "map_of (tool_map a) tool_name = Some f"
      and "bind_arguments f (body_or_empty b) = Inr bound"
      and "body f bound w = (Raise e, w')"
      and "\<not> isinstance e ''TypeError''"
      and "\<not> isinstance e ''Exception''"
  shows "invoke_tool a tool_name b w = (Propagated e, w')"
  using assms by (simp add: invoke_tool_def py_call_def)





section \<open>The introspector\<close>

lemma first_raise_Raise: "first_raise rs = Raise e \<Longrightarrow> Raise e \<in> set rs"
  by (induction rs rule: first_raise.induct) auto

lemma isinstance_int_limit_error: "isinstance int_limit_error ''ValueError''"
  by (simp add: int_limit_error_def ValueError_def isinstance_def)

text \<open>\<open>json.dumps\<close> raises nothing but \<open>TypeError\<close> and \<open>ValueError\<close>.\<close>

lemma json_dumps_raises:
  "json_dumps v = Raise e \<Longrightarrow> isinstance e ''TypeError'' \<or> isinstance e ''ValueError''"
proof (induction v)
  case (PInt i)
  then show ?case by (auto simp: isinstance_int_limit_error split: if_splits)
next
  case (PList xs)
  then show ?case by (auto dest!: first_raise_Raise)
next
  case (PTuple xs)
  then show ?case by (auto dest!: first_raise_Raise)
next
  case (PDict kvs)
  then show ?case by (fastforce dest!: first_raise_Raise)
next
  case (PObj t r s)
  then show ?case by (auto simp: isinstance_TypeError)
next
  case (PRef a)
  then show ?case by (auto simp: isinstance_TypeError)
qed simp_all



lemma param_info_entry_ok: "param_info h p = Return info \<Longrightarrow> param_entry_ok (PDict info)"
  by (auto simp: param_info_def type_info_def default_info_def param_entry_ok_def update_conv'
        split: option.splits outcome.splits if_splits)
















lemma update_values:
  "list_all (\<lambda>kv. P (snd kv)) al \<Longrightarrow> P v \<Longrightarrow> list_all (\<lambda>kv. P (snd kv)) (AList.update k v al)"
  by (induction al) auto

lemma param_info_loop_entries_ok:
  "list_all (\<lambda>kv. param_entry_ok (snd kv)) init \<Longrightarrow> param_info_loop h ps init = Return params
   \<Longrightarrow> list_all (\<lambda>kv. param_entry_ok (snd kv)) params"
proof (induction ps arbitrary: init)
  case Nil
  then show ?case by simp
next
  case (Cons p ps)
  from Cons.prems(2) obtain info where info: "param_info h p = Return info"
    and l: "param_info_loop h ps (AList.update (pname p) (PDict info) init) = Return params"
    by (auto split: outcome.splits)
  have "list_all (\<lambda>kv. param_entry_ok (snd kv)) (AList.update (pname p) (PDict info) init)"
    using Cons.prems(1) param_info_entry_ok [OF info] by (rule update_values)
  then show ?case
    using l by (rule Cons.IH)
qed

lemma descriptor_ok_descriptor: "descriptor h f = Return d \<Longrightarrow> descriptor_ok d"
proof -
  assume d: "descriptor h f = Return d"
  then obtain doc params where
    "extract_param_info h f = Return params"
    "d = PDict [(''name'', PStr (fname f)), (''description'', PStr doc),
                (''parameters'', PDict params)]"
    by (auto simp: descriptor_def split: outcome.splits)
  moreover from this(1) have "list_all (\<lambda>kv. param_entry_ok (snd kv)) params"
    using param_info_loop_entries_ok [of "[]" h "signature f" params]
    by (simp add: extract_param_info_def)
  ultimately show ?thesis
    by (simp add: descriptor_ok_def)
qed

lemma register_tools_descriptors_ok:
  "list_all descriptor_ok tinfo \<Longrightarrow>
   register_tools h tools (tmap, tinfo) = Return (tmap', tinfo')
   \<Longrightarrow> list_all descriptor_ok tinfo'"
proof (induction tools arbitrary: tmap tinfo)
  case Nil
  then show ?case by simp
next
  case (Cons f fs)
  from Cons.prems(2) obtain d where d: "descriptor h f = Return d"
    and r: "register_tools h fs (AList.update (fname f) f tmap, tinfo @ [d])
              = Return (tmap', tinfo')"
    by (auto split: outcome.splits)
  from Cons.prems(1) descriptor_ok_descriptor [OF d] have "list_all descriptor_ok (tinfo @ [d])"
    by simp
  then show ?case
    using r by (rule Cons.IH)
qed

text \<open>
  Claim C10. Every descriptor that \<open>expose_tools\<close> publishes is well formed: each entry
  of its \<open>parameters\<close> has a boolean \<open>required\<close>, and has a \<open>default\<close> exactly when
  \<open>required\<close> is false.
\<close>

theorem published_descriptors_ok:
  assumes "expose_tools h tools title description version = Return a"
  shows "list_all descriptor_ok (tool_info a)"
proof -
  from assms obtain tmap tinfo where r: "register_tools h tools ([], []) = Return (tmap, tinfo)"
    and a: "tool_info a = tinfo"
    by (auto simp: expose_tools_def split: outcome.splits prod.splits)
  have "list_all descriptor_ok []" by simp
  from register_tools_descriptors_ok [OF this r] a show ?thesis by simp
qed

theorem published_descriptors_ok_witness:
  "expose_tools [] [configure :: unit func] ''MCP Server'' [] ''1.0.0'' = Return configure_server
   \<and> tool_info (configure_server :: unit app) = [configure_descriptor]
   \<and> list_all descriptor_ok (tool_info (configure_server :: unit app))"
  using published_descriptors_ok [OF expose_configure [where 'w = unit]]
        expose_configure [where 'w = unit]
  by (simp add: configure_server_def server_of_def)

section \<open>The registry and the schema publisher\<close>

text \<open>
  The registry as a whole: \<open>tool_info\<close> holds the descriptor of every operation passed, in
  order, and \<open>tool_map\<close> maps a name to the last operation passed under that name.
\<close>

lemma register_tools_info:
  "register_tools h tools (tmap, tinfo) = Return (tmap', tinfo') \<Longrightarrow>
   \<exists>ds. tinfo' = tinfo @ ds \<and> list_all2 (\<lambda>f d. descriptor h f = Return d) tools ds"
proof (induction tools arbitrary: tmap tinfo)
  case Nil
  then show ?case by simp
next
  case (Cons f fs)
  from Cons.prems obtain d where d: "descriptor h f = Return d"
    and r: "register_tools h fs (AList.update (fname f) f tmap, tinfo @ [d])
              = Return (tmap', tinfo')"
    by (auto split: outcome.splits)
  from Cons.IH [OF r] obtain ds where
    "tinfo' = (tinfo @ [d]) @ ds" "list_all2 (\<lambda>f d. descriptor h f = Return d) fs ds"
    by blast
  with d have "tinfo' = tinfo @ (d # ds)"
    "list_all2 (\<lambda>f d. descriptor h f = Return d) (f # fs) (d # ds)"
    by simp_all
  then show ?case by blast
qed

lemma find_snoc:
  "find P (xs @ [x]) =
     (case find P xs of Some y \<Rightarrow> Some y | None \<Rightarrow> if P x then Some x else None)"
  by (induction xs) auto

lemma register_tools_map:
  "register_tools h tools (tmap, tinfo) = Return (tmap', tinfo') \<Longrightarrow>
   map_of tmap' n =
     (case find (\<lambda>f. fname f = n) (rev tools) of Some f \<Rightarrow> Some f | None \<Rightarrow> map_of tmap n)"
proof (induction tools arbitrary: tmap tinfo)
  case Nil
  then show ?case by simp
next
  case (Cons f fs)
  from Cons.prems obtain d where
    r: "register_tools h fs (AList.update (fname f) f tmap, tinfo @ [d])
          = Return (tmap', tinfo')"
    by (auto split: outcome.splits)
  from Cons.IH [OF r] show ?case
    by (simp add: find_snoc update_conv' split: option.splits)
qed

lemma expose_tools_tool_info:
  assumes "expose_tools h tools title description version = Return a"
  shows "list_all2 (\<lambda>f d. descriptor h f = Return d) tools (tool_info a)"
proof -
  from assms obtain tmap tinfo where r: "register_tools h tools ([], []) = Return (tmap, tinfo)"
    and a: "tool_info a = tinfo"
    by (auto simp: expose_tools_def split: outcome.splits prod.splits)
  from register_tools_info [OF r] a show ?thesis by auto
qed

lemma expose_tools_tool_map:
  assumes "expose_tools h tools title description version = Return a"
  shows "map_of (tool_map a) n = find (\<lambda>f. fname f = n) (rev tools)"
proof -
  from assms obtain tmap tinfo where r: "register_tools h tools ([], []) = Return (tmap, tinfo)"
    and a: "tool_map a = tmap"
    by (auto simp: expose_tools_def split: outcome.splits prod.splits)
  from register_tools_map [OF r, of n] a show ?thesis
    by (simp split: option.splits)
qed

text \<open>
  So \<open>list_tools\<close> counts the operations passed, and a name passed twice is listed twice.
\<close>

lemma list_tools_count:
  assumes "expose_tools h tools title description version = Return a"
  shows "list_tools a =
           Returned (PDict [(''tools'', PList (tool_info a)),
                            (''count'', PInt (int (length tools)))])"
  using expose_tools_tool_info [OF assms] by (simp add: list_tools_def list_all2_lengthD)

text \<open>
  Claim C1, evaluated on two operations named \<open>add\<close>: \<open>tool_map\<close> keeps one entry, the
  later operation (\<open>health\<close> counts one tool, and \<open>invoke_tool\<close> runs the later operation,
  which takes \<open>c\<close>), while \<open>tool_info\<close> keeps both descriptors, the earlier one first, and
  \<open>list_tools\<close> counts two.
\<close>

theorem expose_tools_duplicate_name:
  "(case expose_tools [] [add, add3 :: unit func] ''MCP Server'' [] ''1.0.0'' of
      Raise e \<Rightarrow> None
    | Return a \<Rightarrow>
        Some (list_tools a, health a, map fst (tool_map a),
              fst (invoke_tool a ''add''
                     (Some [(''a'', PInt 1), (''b'', PInt 2), (''c'', PInt 4)]) ())))
   = Some (Returned (PDict [(''tools'', PList [add_descriptor, add3_descriptor]),
                            (''count'', PInt 2)]),
           Returned (PDict [(''status'', PStr ''ok''),
                            (''server'', PStr ''MCP Server''),
                            (''version'', PStr ''1.0.0''),
                            (''tools'', PInt 1)]),
           [''add''],
           Returned (PDict [(''success'', PBool True),
                            (''tool'', PStr ''add''),
                            (''result'', PInt 7)]))"
  by code_simp

section \<open>Reading the registry while operations run\<close>











end
